theory Spec2Isabelle
  imports Complex_Main "HOL-Library.Monad_Syntax"
begin

section \<open>Engine value types used by the menu widget\<close>

text \<open>
  The widget stores and combines two engine value types: a 2D render transform and a
  linear colour. Their components are single-precision numbers in the engine; following
  the specification ("plain real-number arithmetic") they are modelled as reals. A 2D
  vector is a pair.
\<close>

type_synonym FVector2D = "real \<times> real"

record FWidgetTransform =
  Translation :: FVector2D
  Scale :: FVector2D
  Shear :: FVector2D
  Angle :: real

datatype FLinearColor = FLinearColor real real real real

text \<open>The engine's \<open>FLinearColor::operator*\<close>: the product channel by channel, alpha
  included, with no clamping.\<close>

fun color_times :: "FLinearColor \<Rightarrow> FLinearColor \<Rightarrow> FLinearColor" where
  "color_times (FLinearColor r1 g1 b1 a1) (FLinearColor r2 g2 b2 a2) =
     FLinearColor (r1 * r2) (g1 * g2) (b1 * b2) (a1 * a2)"

section \<open>The main menu widget (MainMenuWidget.h, MainMenuWidget.cpp)\<close>

text \<open>
  Objects are referred to by their identity; a \<open>TObjectPtr\<close> or raw pointer that may be
  null is an \<open>option\<close>. The dynamic delegates a button carries are lists of the bound
  member functions of the widget.
\<close>

type_synonym UButton = nat
type_synonym USoundBase = nat

datatype hover_delegate =
    PlayHovered | PlayUnhovered
  | SettingsHovered | SettingsUnhovered
  | ContentHovered | ContentUnhovered
  | QuitHovered | QuitUnhovered

record UButton_obj =
  RenderTransform :: FWidgetTransform
  ColorAndOpacity :: FLinearColor
  OnHovered :: "hover_delegate list"
  OnUnhovered :: "hover_delegate list"

text \<open>
  The state the widget's member functions read and write: the fields of
  \<open>UMainMenuWidget\<close> itself, the button objects its pointers refer to (\<open>Buttons\<close>, an
  explicit store indexed by identity), and the log of \<open>PlaySound2D\<close> calls made so far
  (\<open>Played\<close>), which stands for the fire-and-forget audio side effect.
\<close>

record UMainMenuWidget =
  HoverScaleMultiplier :: real
  HoverAnimationDuration :: real
  HoverColorTint :: FLinearColor
  bPlaySoundOnHover :: bool
  HoverSound :: "USoundBase option"
  PlayButton :: "UButton option"
  SettingsButton :: "UButton option"
  ContentButton :: "UButton option"
  QuitButton :: "UButton option"
  OriginalTransforms :: "UButton \<rightharpoonup> FWidgetTransform"
  OriginalColors :: "UButton \<rightharpoonup> FLinearColor"
  Buttons :: "UButton \<Rightarrow> UButton_obj"
  Played :: "USoundBase list"

subsection \<open>Engine setters and services\<close>

definition SetRenderTransform :: "UButton \<Rightarrow> FWidgetTransform \<Rightarrow> UMainMenuWidget \<Rightarrow> UMainMenuWidget" where
  "SetRenderTransform e t s = s\<lparr>Buttons := (Buttons s)(e := (Buttons s e)\<lparr>RenderTransform := t\<rparr>)\<rparr>"

definition SetColorAndOpacity :: "UButton \<Rightarrow> FLinearColor \<Rightarrow> UMainMenuWidget \<Rightarrow> UMainMenuWidget" where
  "SetColorAndOpacity e c s = s\<lparr>Buttons := (Buttons s)(e := (Buttons s e)\<lparr>ColorAndOpacity := c\<rparr>)\<rparr>"

definition PlaySound2D :: "USoundBase \<Rightarrow> UMainMenuWidget \<Rightarrow> UMainMenuWidget" where
  "PlaySound2D Sound s = s\<lparr>Played := Played s @ [Sound]\<rparr>"

definition AddDynamicHovered :: "UButton \<Rightarrow> hover_delegate \<Rightarrow> UMainMenuWidget \<Rightarrow> UMainMenuWidget" where
  "AddDynamicHovered e d s =
     s\<lparr>Buttons := (Buttons s)(e := (Buttons s e)\<lparr>OnHovered := OnHovered (Buttons s e) @ [d]\<rparr>)\<rparr>"

definition AddDynamicUnhovered :: "UButton \<Rightarrow> hover_delegate \<Rightarrow> UMainMenuWidget \<Rightarrow> UMainMenuWidget" where
  "AddDynamicUnhovered e d s =
     s\<lparr>Buttons := (Buttons s)(e := (Buttons s e)\<lparr>OnUnhovered := OnUnhovered (Buttons s e) @ [d]\<rparr>)\<rparr>"

subsection \<open>BindButtonHoverEffects\<close>

text \<open>
  The function consists of the same block four times, once per button pointer. One block:
  when the pointer is not null, \<open>TMap::Add\<close> stores the button's current render transform
  and colour under the button (replacing a value already stored under that key), and the
  two handlers are bound.
\<close>

definition bind_block ::
  "UButton option \<Rightarrow> hover_delegate \<Rightarrow> hover_delegate \<Rightarrow> UMainMenuWidget \<Rightarrow> UMainMenuWidget" where
  "bind_block Button hov unhov s =
     (case Button of
        None \<Rightarrow> s
      | Some e \<Rightarrow>
          let s1 = s\<lparr>OriginalTransforms := (OriginalTransforms s)(e \<mapsto> RenderTransform (Buttons s e))\<rparr>;
              s2 = s1\<lparr>OriginalColors := (OriginalColors s1)(e \<mapsto> ColorAndOpacity (Buttons s1 e))\<rparr>;
              s3 = AddDynamicHovered e hov s2
          in AddDynamicUnhovered e unhov s3)"

definition BindButtonHoverEffects :: "UMainMenuWidget \<Rightarrow> UMainMenuWidget" where
  "BindButtonHoverEffects s =
     (let s1 = bind_block (PlayButton s) PlayHovered PlayUnhovered s;
          s2 = bind_block (SettingsButton s1) SettingsHovered SettingsUnhovered s1;
          s3 = bind_block (ContentButton s2) ContentHovered ContentUnhovered s2
      in bind_block (QuitButton s3) QuitHovered QuitUnhovered s3)"

text \<open>\<open>NativeConstruct\<close> calls the engine's \<open>Super::NativeConstruct()\<close>, which touches none
  of the widget's own fields, and then binds the hover effects.\<close>

definition NativeConstruct :: "UMainMenuWidget \<Rightarrow> UMainMenuWidget" where
  "NativeConstruct s = BindButtonHoverEffects s"

subsection \<open>ApplyHoverEffect and RemoveHoverEffect\<close>

definition ApplyHoverEffect :: "UButton option \<Rightarrow> UMainMenuWidget \<Rightarrow> UMainMenuWidget" where
  "ApplyHoverEffect Button s =
     (case Button of
        None \<Rightarrow> s
      | Some e \<Rightarrow>
          (case OriginalTransforms s e of
             None \<Rightarrow> s
           | Some OriginalTransform \<Rightarrow>
               let HoverTransform =
                     OriginalTransform\<lparr>Scale := (HoverScaleMultiplier s, HoverScaleMultiplier s)\<rparr>;
                   s1 = SetRenderTransform e HoverTransform s
               in (case OriginalColors s1 e of
                     None \<Rightarrow> s1
                   | Some OriginalColor \<Rightarrow>
                       SetColorAndOpacity e (color_times OriginalColor (HoverColorTint s1)) s1)))"

definition RemoveHoverEffect :: "UButton option \<Rightarrow> UMainMenuWidget \<Rightarrow> UMainMenuWidget" where
  "RemoveHoverEffect Button s =
     (case Button of
        None \<Rightarrow> s
      | Some e \<Rightarrow>
          let s1 = (case OriginalTransforms s e of
                      None \<Rightarrow> s
                    | Some OriginalTransform \<Rightarrow> SetRenderTransform e OriginalTransform s)
          in (case OriginalColors s1 e of
                None \<Rightarrow> s1
              | Some OriginalColor \<Rightarrow> SetColorAndOpacity e OriginalColor s1))"

subsection \<open>The hover handlers\<close>

text \<open>The guarded sound step shared by the four hovered handlers:
  \<open>if (bPlaySoundOnHover && HoverSound) PlaySound2D(this, HoverSound)\<close>.\<close>

definition hover_sound_step :: "UMainMenuWidget \<Rightarrow> UMainMenuWidget" where
  "hover_sound_step s =
     (if bPlaySoundOnHover s
      then (case HoverSound s of None \<Rightarrow> s | Some Sound \<Rightarrow> PlaySound2D Sound s)
      else s)"

definition OnPlayButtonHovered :: "UMainMenuWidget \<Rightarrow> UMainMenuWidget" where
  "OnPlayButtonHovered s = (let s1 = hover_sound_step s in ApplyHoverEffect (PlayButton s1) s1)"

definition OnPlayButtonUnhovered :: "UMainMenuWidget \<Rightarrow> UMainMenuWidget" where
  "OnPlayButtonUnhovered s = RemoveHoverEffect (PlayButton s) s"

definition OnSettingsButtonHovered :: "UMainMenuWidget \<Rightarrow> UMainMenuWidget" where
  "OnSettingsButtonHovered s = (let s1 = hover_sound_step s in ApplyHoverEffect (SettingsButton s1) s1)"

definition OnSettingsButtonUnhovered :: "UMainMenuWidget \<Rightarrow> UMainMenuWidget" where
  "OnSettingsButtonUnhovered s = RemoveHoverEffect (SettingsButton s) s"

definition OnContentButtonHovered :: "UMainMenuWidget \<Rightarrow> UMainMenuWidget" where
  "OnContentButtonHovered s = (let s1 = hover_sound_step s in ApplyHoverEffect (ContentButton s1) s1)"

definition OnContentButtonUnhovered :: "UMainMenuWidget \<Rightarrow> UMainMenuWidget" where
  "OnContentButtonUnhovered s = RemoveHoverEffect (ContentButton s) s"

definition OnQuitButtonHovered :: "UMainMenuWidget \<Rightarrow> UMainMenuWidget" where
  "OnQuitButtonHovered s = (let s1 = hover_sound_step s in ApplyHoverEffect (QuitButton s1) s1)"

definition OnQuitButtonUnhovered :: "UMainMenuWidget \<Rightarrow> UMainMenuWidget" where
  "OnQuitButtonUnhovered s = RemoveHoverEffect (QuitButton s) s"

subsection \<open>Runs of the widget\<close>

text \<open>
  The calls the host (or a Blueprint, for the \<open>BlueprintCallable\<close> functions) can make on
  a widget, and the state after a sequence of them. The two maps are private and empty on
  construction; the configuration and the button pointers are assigned by the editor.
\<close>

datatype widget_call =
    CallNativeConstruct
  | CallBindButtonHoverEffects
  | CallOnPlayButtonHovered | CallOnPlayButtonUnhovered
  | CallOnSettingsButtonHovered | CallOnSettingsButtonUnhovered
  | CallOnContentButtonHovered | CallOnContentButtonUnhovered
  | CallOnQuitButtonHovered | CallOnQuitButtonUnhovered
  | CallApplyHoverEffect "UButton option"
  | CallRemoveHoverEffect "UButton option"

fun widget_step :: "widget_call \<Rightarrow> UMainMenuWidget \<Rightarrow> UMainMenuWidget" where
  "widget_step CallNativeConstruct s = NativeConstruct s"
| "widget_step CallBindButtonHoverEffects s = BindButtonHoverEffects s"
| "widget_step CallOnPlayButtonHovered s = OnPlayButtonHovered s"
| "widget_step CallOnPlayButtonUnhovered s = OnPlayButtonUnhovered s"
| "widget_step CallOnSettingsButtonHovered s = OnSettingsButtonHovered s"
| "widget_step CallOnSettingsButtonUnhovered s = OnSettingsButtonUnhovered s"
| "widget_step CallOnContentButtonHovered s = OnContentButtonHovered s"
| "widget_step CallOnContentButtonUnhovered s = OnContentButtonUnhovered s"
| "widget_step CallOnQuitButtonHovered s = OnQuitButtonHovered s"
| "widget_step CallOnQuitButtonUnhovered s = OnQuitButtonUnhovered s"
| "widget_step (CallApplyHoverEffect b) s = ApplyHoverEffect b s"
| "widget_step (CallRemoveHoverEffect b) s = RemoveHoverEffect b s"

fun widget_run :: "widget_call list \<Rightarrow> UMainMenuWidget \<Rightarrow> UMainMenuWidget" where
  "widget_run [] s = s"
| "widget_run (c # cs) s = widget_run cs (widget_step c s)"

definition freshly_constructed :: "UMainMenuWidget \<Rightarrow> bool" where
  "freshly_constructed s \<longleftrightarrow> OriginalTransforms s = Map.empty \<and> OriginalColors s = Map.empty"

subsection \<open>Concrete widgets for evaluation\<close>

definition identity_transform :: FWidgetTransform where
  "identity_transform = \<lparr>Translation = (0, 0), Scale = (1, 1), Shear = (0, 0), Angle = 0\<rparr>"

definition plain_button :: "FVector2D \<Rightarrow> FLinearColor \<Rightarrow> UButton_obj" where
  "plain_button sc col =
     \<lparr>RenderTransform = identity_transform\<lparr>Scale := sc\<rparr>, ColorAndOpacity = col,
      OnHovered = [], OnUnhovered = []\<rparr>"

text \<open>A widget with the header's default configuration, a hover sound (number 7), and the
  four buttons 0..3, each with scale \<open>sc\<close> and colour \<open>col\<close>.\<close>

definition default_menu :: "FVector2D \<Rightarrow> FLinearColor \<Rightarrow> UMainMenuWidget" where
  "default_menu sc col =
     \<lparr>HoverScaleMultiplier = 1.05, HoverAnimationDuration = 0.15,
      HoverColorTint = FLinearColor 1.2 1.2 1.2 1.0,
      bPlaySoundOnHover = True, HoverSound = Some 7,
      PlayButton = Some 0, SettingsButton = Some 1, ContentButton = Some 2, QuitButton = Some 3,
      OriginalTransforms = Map.empty, OriginalColors = Map.empty,
      Buttons = (\<lambda>_. plain_button sc col), Played = []\<rparr>"

definition grey :: FLinearColor where
  "grey = FLinearColor 0.5 0.5 0.5 1.0"

definition bound_menu :: "FVector2D \<Rightarrow> FLinearColor \<Rightarrow> UMainMenuWidget" where
  "bound_menu sc col = BindButtonHoverEffects (default_menu sc col)"

subsection \<open>Vocabulary for the properties\<close>

text \<open>The button pointers of the widget, and what it means for a pointer to be null or
  to refer to an element with no stored snapshot.\<close>

definition bound_buttons :: "UMainMenuWidget \<Rightarrow> UButton option set" where
  "bound_buttons s = {PlayButton s, SettingsButton s, ContentButton s, QuitButton s}"

definition unknown_element :: "UMainMenuWidget \<Rightarrow> UButton option \<Rightarrow> bool" where
  "unknown_element s Button =
     (case Button of
        None \<Rightarrow> True
      | Some e \<Rightarrow> e \<notin> dom (OriginalTransforms s) \<and> e \<notin> dom (OriginalColors s))"

section \<open>The game instance (ApexSimGameInstance.h, ApexSimGameInstance.cpp)\<close>

text \<open>
  Widget classes and widget objects are referred to by identity. A member call through a
  pointer (\<open>CurrentWidget->AddToViewport(0)\<close>) needs the pointer to be non-null: the
  engine operations below take the pointer as an \<open>option\<close> and return \<open>None\<close>, the crash,
  when it is null. \<open>Init\<close> and \<open>ShowMainMenu\<close> therefore return an \<open>option\<close> as well.
\<close>

type_synonym UClass = nat
type_synonym UUserWidget = nat

datatype input_mode = InputModeDefault | InputModeUIOnly UUserWidget

record APlayerController_obj =
  InputMode :: input_mode
  bShowMouseCursor :: bool

datatype timer_function = TimerShowMainMenu

record FTimerData =
  TimerFunc :: timer_function
  Rate :: real
  bLoop :: bool
  Remaining :: real

text \<open>
  The fields of \<open>UApexSimGameInstance\<close>, followed by the part of the host the two member
  functions act on: which classes \<open>CreateWidget\<close> can instantiate, the widgets created so
  far with their class, the next free object identity, the widgets in the viewport, and
  player controller 0 (absent when the world has none). \<open>LoadingTimerHandle\<close> holds the
  timer manager's entry for that handle, \<open>None\<close> when no timer is set on it.
\<close>

record UApexSimGameInstance =
  LoadingScreenWidgetClass :: "UClass option"
  MainMenuWidgetClass :: "UClass option"
  LoadingScreenDuration :: real
  CurrentWidget :: "UUserWidget option"
  LoadingTimerHandle :: "FTimerData option"
  Instantiable :: "UClass \<Rightarrow> bool"
  ClassOf :: "UUserWidget \<rightharpoonup> UClass"
  NextObject :: nat
  Viewport :: "UUserWidget list"
  PlayerController :: "APlayerController_obj option"

subsection \<open>Host operations\<close>

text \<open>\<open>CreateWidget\<close> yields a new object of the class, or null when the host cannot
  instantiate it.\<close>

definition CreateWidget :: "UClass \<Rightarrow> UApexSimGameInstance \<Rightarrow> UUserWidget option \<times> UApexSimGameInstance" where
  "CreateWidget c s =
     (if Instantiable s c
      then (Some (NextObject s),
            s\<lparr>ClassOf := (ClassOf s)(NextObject s \<mapsto> c), NextObject := Suc (NextObject s)\<rparr>)
      else (None, s))"

definition AddToViewport :: "UUserWidget option \<Rightarrow> int \<Rightarrow> UApexSimGameInstance \<Rightarrow> UApexSimGameInstance option" where
  "AddToViewport p ZOrder s =
     (case p of
        None \<Rightarrow> None
      | Some w \<Rightarrow> Some (if w \<in> set (Viewport s) then s else s\<lparr>Viewport := Viewport s @ [w]\<rparr>))"

definition RemoveFromParent :: "UUserWidget option \<Rightarrow> UApexSimGameInstance \<Rightarrow> UApexSimGameInstance option" where
  "RemoveFromParent p s =
     (case p of
        None \<Rightarrow> None
      | Some w \<Rightarrow> Some (s\<lparr>Viewport := removeAll w (Viewport s)\<rparr>))"

definition TakeWidget :: "UUserWidget option \<Rightarrow> UUserWidget option" where
  "TakeWidget p = p"

text \<open>Modelled from the spec: the host's delay scheduler, which is not part of the
  source (section 6: "Delay scheduler: \<open>after(duration, callback)\<close>, single-shot; no
  cancellation handle required"). Setting a timer on the instance's handle arms it for
  the given function, due after the given rate; the last argument of the source's call
  says whether the timer repeats.\<close>

definition SetTimer :: "timer_function \<Rightarrow> real \<Rightarrow> bool \<Rightarrow> UApexSimGameInstance \<Rightarrow> UApexSimGameInstance" where
  "SetTimer f InRate InbLoop s =
     s\<lparr>LoadingTimerHandle :=
          Some \<lparr>TimerFunc = f, Rate = InRate, bLoop = InbLoop, Remaining = InRate\<rparr>\<rparr>"

subsection \<open>Init and ShowMainMenu\<close>

text \<open>The block both functions share, up to the cursor flag: when player controller 0
  exists, switch it to UI-only input focused on the current widget and set
  \<open>bShowMouseCursor\<close>. The call \<open>Super::Init()\<close> at the head of \<open>Init\<close> is the engine's
  and touches none of the fields below; it is left out.\<close>

definition set_ui_only_input :: "bool \<Rightarrow> UApexSimGameInstance \<Rightarrow> UApexSimGameInstance option" where
  "set_ui_only_input cursor s =
     (case PlayerController s of
        None \<Rightarrow> Some s
      | Some PC \<Rightarrow> do {
          focus \<leftarrow> TakeWidget (CurrentWidget s);
          Some (s\<lparr>PlayerController :=
                    Some (PC\<lparr>InputMode := InputModeUIOnly focus, bShowMouseCursor := cursor\<rparr>)\<rparr>)
        })"

definition Init :: "UApexSimGameInstance \<Rightarrow> UApexSimGameInstance option" where
  "Init s =
     (case LoadingScreenWidgetClass s of
        None \<Rightarrow> Some s
      | Some c \<Rightarrow>
          (let (w, s1) = CreateWidget c s;
               s2 = s1\<lparr>CurrentWidget := w\<rparr>
           in if CurrentWidget s2 \<noteq> None
              then do {
                s3 \<leftarrow> AddToViewport (CurrentWidget s2) 0 s2;
                s4 \<leftarrow> set_ui_only_input False s3;
                Some (SetTimer TimerShowMainMenu (LoadingScreenDuration s4) False s4)
              }
              else Some s2))"

definition ShowMainMenu :: "UApexSimGameInstance \<Rightarrow> UApexSimGameInstance option" where
  "ShowMainMenu s = do {
     s1 \<leftarrow> (if CurrentWidget s \<noteq> None
            then do {
              s' \<leftarrow> RemoveFromParent (CurrentWidget s) s;
              Some (s'\<lparr>CurrentWidget := None\<rparr>)
            }
            else Some s);
     (case MainMenuWidgetClass s1 of
        None \<Rightarrow> Some s1
      | Some c \<Rightarrow>
          (let (w, s2) = CreateWidget c s1;
               s3 = s2\<lparr>CurrentWidget := w\<rparr>
           in if CurrentWidget s3 \<noteq> None
              then do {
                s4 \<leftarrow> AddToViewport (CurrentWidget s3) 0 s3;
                set_ui_only_input True s4
              }
              else Some s3))
   }"

subsection \<open>The host's delay scheduler\<close>

text \<open>Modelled from the spec: the call the scheduler makes when a timer is due. The
  only function the source ever registers is \<open>ShowMainMenu\<close> (section 4.1:
  "\<open>Transition()\<close>: invoked exactly once, by the delay mechanism").\<close>

fun fire_timer :: "timer_function \<Rightarrow> UApexSimGameInstance \<Rightarrow> UApexSimGameInstance option" where
  "fire_timer TimerShowMainMenu s = ShowMainMenu s"

text \<open>Modelled from the spec: the passing of time in the host's delay scheduler, which
  is not part of the source (section 4.1: the transition fires "after \<open>delaySeconds\<close>
  elapsed (monotonic, single-shot, non-repeating)"; section 5: handlers are invoked
  synchronously by the host's event loop, one at a time). A step of the event loop lets
  \<open>DeltaTime\<close> pass: a pending timer whose remaining time has then elapsed is called; a
  timer that does not repeat is removed when it is called, a repeating one (the source
  sets none) is armed again for its rate. The step returns the number of calls made
  together with the new state.\<close>

definition Tick :: "real \<Rightarrow> UApexSimGameInstance \<Rightarrow> (nat \<times> UApexSimGameInstance) option" where
  "Tick DeltaTime s =
     (case LoadingTimerHandle s of
        None \<Rightarrow> Some (0, s)
      | Some t \<Rightarrow>
          if DeltaTime < Remaining t
          then Some (0, s\<lparr>LoadingTimerHandle := Some (t\<lparr>Remaining := Remaining t - DeltaTime\<rparr>)\<rparr>)
          else do {
            s1 \<leftarrow> fire_timer (TimerFunc t)
                    (s\<lparr>LoadingTimerHandle :=
                         (if bLoop t then Some (t\<lparr>Remaining := Rate t\<rparr>) else None)\<rparr>);
            Some (1, s1)
          })"

text \<open>Modelled from the spec: a run of the host's event loop, as a sequence of steps
  with the time each lets pass; it returns the total number of timer calls.\<close>

fun run_ticks :: "real list \<Rightarrow> UApexSimGameInstance \<Rightarrow> (nat \<times> UApexSimGameInstance) option" where
  "run_ticks [] s = Some (0, s)"
| "run_ticks (d # ds) s = do {
     (n, s1) \<leftarrow> Tick d s;
     (m, s2) \<leftarrow> run_ticks ds s1;
     Some (n + m, s2)
   }"

subsection \<open>Observations of the startup flow\<close>

text \<open>
  What an observer of the two-phase flow sees of a state: the class of the current view,
  the classes of the displayed views, and the cursor flag of the player controller. The
  controller's view is the sole displayed view when the viewport holds nothing but the
  current widget.
\<close>

definition controller_view ::
  "UApexSimGameInstance \<Rightarrow> UClass option \<times> UClass option list \<times> bool option" where
  "controller_view s =
     (case CurrentWidget s of None \<Rightarrow> None | Some w \<Rightarrow> ClassOf s w,
      map (ClassOf s) (Viewport s),
      map_option bShowMouseCursor (PlayerController s))"

definition sole_view :: "UApexSimGameInstance \<Rightarrow> bool" where
  "sole_view s \<longleftrightarrow> set (Viewport s) \<subseteq> set_option (CurrentWidget s)"

text \<open>A game instance as constructed (duration 2.0, nothing shown, no timer), with the
  two widget classes as given, on a host that can instantiate every class and has a
  player controller.\<close>

definition game_instance :: "UClass option \<Rightarrow> UClass option \<Rightarrow> UApexSimGameInstance" where
  "game_instance loading menu =
     \<lparr>LoadingScreenWidgetClass = loading, MainMenuWidgetClass = menu, LoadingScreenDuration = 2.0,
      CurrentWidget = None, LoadingTimerHandle = None,
      Instantiable = (\<lambda>_. True), ClassOf = Map.empty, NextObject = 0, Viewport = [],
      PlayerController = Some \<lparr>InputMode = InputModeDefault, bShowMouseCursor = True\<rparr>\<rparr>"

text \<open>The two guards around the \<open>SetTimer\<close> call in \<open>Init\<close>: a loading screen class is
  set, and the widget created from it is not null.\<close>

definition loading_widget_created :: "UApexSimGameInstance \<Rightarrow> bool" where
  "loading_widget_created s =
     (case LoadingScreenWidgetClass s of None \<Rightarrow> False | Some c \<Rightarrow> Instantiable s c)"

text \<open>The same instance on a host that can instantiate no class.\<close>

definition game_instance_no_create :: "UClass option \<Rightarrow> UClass option \<Rightarrow> UApexSimGameInstance" where
  "game_instance_no_create loading menu = (game_instance loading menu)\<lparr>Instantiable := (\<lambda>_. False)\<rparr>"

section \<open>Properties of the hover effect\<close>

subsection \<open>What each operation leaves unchanged\<close>

lemma SetRenderTransform_fields [simp]:
  "OriginalTransforms (SetRenderTransform e t s) = OriginalTransforms s"
  "OriginalColors (SetRenderTransform e t s) = OriginalColors s"
  "HoverColorTint (SetRenderTransform e t s) = HoverColorTint s"
  "HoverScaleMultiplier (SetRenderTransform e t s) = HoverScaleMultiplier s"
  "Played (SetRenderTransform e t s) = Played s"
  "PlayButton (SetRenderTransform e t s) = PlayButton s"
  "SettingsButton (SetRenderTransform e t s) = SettingsButton s"
  "ContentButton (SetRenderTransform e t s) = ContentButton s"
  "QuitButton (SetRenderTransform e t s) = QuitButton s"
  by (simp_all add: SetRenderTransform_def)

lemma SetColorAndOpacity_fields [simp]:
  "OriginalTransforms (SetColorAndOpacity e c s) = OriginalTransforms s"
  "OriginalColors (SetColorAndOpacity e c s) = OriginalColors s"
  "HoverColorTint (SetColorAndOpacity e c s) = HoverColorTint s"
  "HoverScaleMultiplier (SetColorAndOpacity e c s) = HoverScaleMultiplier s"
  "Played (SetColorAndOpacity e c s) = Played s"
  "PlayButton (SetColorAndOpacity e c s) = PlayButton s"
  "SettingsButton (SetColorAndOpacity e c s) = SettingsButton s"
  "ContentButton (SetColorAndOpacity e c s) = ContentButton s"
  "QuitButton (SetColorAndOpacity e c s) = QuitButton s"
  by (simp_all add: SetColorAndOpacity_def)

lemma Buttons_SetRenderTransform [simp]:
  "RenderTransform (Buttons (SetRenderTransform e t s) e) = t"
  "ColorAndOpacity (Buttons (SetRenderTransform e t s) e') = ColorAndOpacity (Buttons s e')"
  by (simp_all add: SetRenderTransform_def)

lemma Buttons_SetColorAndOpacity [simp]:
  "ColorAndOpacity (Buttons (SetColorAndOpacity e c s) e) = c"
  "RenderTransform (Buttons (SetColorAndOpacity e c s) e') = RenderTransform (Buttons s e')"
  by (simp_all add: SetColorAndOpacity_def)

lemma bind_block_fields [simp]:
  "PlayButton (bind_block b h u s) = PlayButton s"
  "SettingsButton (bind_block b h u s) = SettingsButton s"
  "ContentButton (bind_block b h u s) = ContentButton s"
  "QuitButton (bind_block b h u s) = QuitButton s"
  "HoverScaleMultiplier (bind_block b h u s) = HoverScaleMultiplier s"
  "HoverColorTint (bind_block b h u s) = HoverColorTint s"
  "bPlaySoundOnHover (bind_block b h u s) = bPlaySoundOnHover s"
  "HoverSound (bind_block b h u s) = HoverSound s"
  "Played (bind_block b h u s) = Played s"
  by (simp_all add: bind_block_def AddDynamicHovered_def AddDynamicUnhovered_def Let_def
      split: option.splits)

lemma bind_block_style [simp]:
  "RenderTransform (Buttons (bind_block b h u s) x) = RenderTransform (Buttons s x)"
  "ColorAndOpacity (Buttons (bind_block b h u s) x) = ColorAndOpacity (Buttons s x)"
  by (simp_all add: bind_block_def AddDynamicHovered_def AddDynamicUnhovered_def Let_def
      split: option.splits)

lemma bind_block_maps:
  "OriginalTransforms (bind_block b h u s) =
     (case b of None \<Rightarrow> OriginalTransforms s
      | Some e \<Rightarrow> (OriginalTransforms s)(e \<mapsto> RenderTransform (Buttons s e)))"
  "OriginalColors (bind_block b h u s) =
     (case b of None \<Rightarrow> OriginalColors s
      | Some e \<Rightarrow> (OriginalColors s)(e \<mapsto> ColorAndOpacity (Buttons s e)))"
  by (simp_all add: bind_block_def AddDynamicHovered_def AddDynamicUnhovered_def Let_def
      split: option.splits)

lemma BindButtonHoverEffects_style [simp]:
  "RenderTransform (Buttons (BindButtonHoverEffects s) x) = RenderTransform (Buttons s x)"
  "ColorAndOpacity (Buttons (BindButtonHoverEffects s) x) = ColorAndOpacity (Buttons s x)"
  by (simp_all add: BindButtonHoverEffects_def Let_def)

lemma BindButtonHoverEffects_fields [simp]:
  "PlayButton (BindButtonHoverEffects s) = PlayButton s"
  "SettingsButton (BindButtonHoverEffects s) = SettingsButton s"
  "ContentButton (BindButtonHoverEffects s) = ContentButton s"
  "QuitButton (BindButtonHoverEffects s) = QuitButton s"
  "HoverScaleMultiplier (BindButtonHoverEffects s) = HoverScaleMultiplier s"
  "HoverColorTint (BindButtonHoverEffects s) = HoverColorTint s"
  "bPlaySoundOnHover (BindButtonHoverEffects s) = bPlaySoundOnHover s"
  "HoverSound (BindButtonHoverEffects s) = HoverSound s"
  "Played (BindButtonHoverEffects s) = Played s"
  by (simp_all add: BindButtonHoverEffects_def Let_def)

lemma ApplyHoverEffect_fields [simp]:
  "OriginalTransforms (ApplyHoverEffect b s) = OriginalTransforms s"
  "OriginalColors (ApplyHoverEffect b s) = OriginalColors s"
  "PlayButton (ApplyHoverEffect b s) = PlayButton s"
  "SettingsButton (ApplyHoverEffect b s) = SettingsButton s"
  "ContentButton (ApplyHoverEffect b s) = ContentButton s"
  "QuitButton (ApplyHoverEffect b s) = QuitButton s"
  "Played (ApplyHoverEffect b s) = Played s"
  "HoverColorTint (ApplyHoverEffect b s) = HoverColorTint s"
  "HoverScaleMultiplier (ApplyHoverEffect b s) = HoverScaleMultiplier s"
  by (simp_all add: ApplyHoverEffect_def Let_def split: option.splits)

lemma RemoveHoverEffect_fields [simp]:
  "OriginalTransforms (RemoveHoverEffect b s) = OriginalTransforms s"
  "OriginalColors (RemoveHoverEffect b s) = OriginalColors s"
  "PlayButton (RemoveHoverEffect b s) = PlayButton s"
  "SettingsButton (RemoveHoverEffect b s) = SettingsButton s"
  "ContentButton (RemoveHoverEffect b s) = ContentButton s"
  "QuitButton (RemoveHoverEffect b s) = QuitButton s"
  "Played (RemoveHoverEffect b s) = Played s"
  by (simp_all add: RemoveHoverEffect_def Let_def split: option.splits)

lemma hover_sound_step_fields [simp]:
  "OriginalTransforms (hover_sound_step s) = OriginalTransforms s"
  "OriginalColors (hover_sound_step s) = OriginalColors s"
  "PlayButton (hover_sound_step s) = PlayButton s"
  "SettingsButton (hover_sound_step s) = SettingsButton s"
  "ContentButton (hover_sound_step s) = ContentButton s"
  "QuitButton (hover_sound_step s) = QuitButton s"
  "Buttons (hover_sound_step s) = Buttons s"
  "HoverColorTint (hover_sound_step s) = HoverColorTint s"
  "HoverScaleMultiplier (hover_sound_step s) = HoverScaleMultiplier s"
  by (simp_all add: hover_sound_step_def PlaySound2D_def split: option.splits)

lemma ApplyHoverEffect_after_sound [simp]:
  "Buttons (ApplyHoverEffect b (hover_sound_step s)) = Buttons (ApplyHoverEffect b s)"
  by (simp add: ApplyHoverEffect_def Let_def SetRenderTransform_def SetColorAndOpacity_def
      split: option.splits)

lemmas handler_defs =
  OnPlayButtonHovered_def OnPlayButtonUnhovered_def
  OnSettingsButtonHovered_def OnSettingsButtonUnhovered_def
  OnContentButtonHovered_def OnContentButtonUnhovered_def
  OnQuitButtonHovered_def OnQuitButtonUnhovered_def NativeConstruct_def

lemma widget_step_buttons [simp]: "bound_buttons (widget_step c s) = bound_buttons s"
  by (cases c) (simp_all add: handler_defs Let_def bound_buttons_def)

lemma widget_run_buttons [simp]: "bound_buttons (widget_run cs s) = bound_buttons s"
  by (induction cs arbitrary: s) simp_all

lemma BindButtonHoverEffects_buttons [simp]:
  "bound_buttons (BindButtonHoverEffects s) = bound_buttons s"
  by (simp add: bound_buttons_def)

subsection \<open>Registration\<close>

text \<open>After \<open>BindButtonHoverEffects\<close>, each non-null button pointer of the widget has
  both snapshots, and they are the button's transform and colour at the time of the call.\<close>

lemma BindButtonHoverEffects_snapshot:
  assumes "Some e \<in> bound_buttons s"
  shows "OriginalTransforms (BindButtonHoverEffects s) e = Some (RenderTransform (Buttons s e))"
    and "OriginalColors (BindButtonHoverEffects s) e = Some (ColorAndOpacity (Buttons s e))"
  using assms
  by (auto simp add: bound_buttons_def BindButtonHoverEffects_def Let_def bind_block_maps
      split: option.splits)

lemma BindButtonHoverEffects_dom:
  "dom (OriginalTransforms (BindButtonHoverEffects s))
     = dom (OriginalTransforms s) \<union> {e. Some e \<in> bound_buttons s}"
  "dom (OriginalColors (BindButtonHoverEffects s))
     = dom (OriginalColors s) \<union> {e. Some e \<in> bound_buttons s}"
  by (auto simp add: bound_buttons_def BindButtonHoverEffects_def Let_def bind_block_maps
      split: option.splits if_splits)

lemma widget_step_dom:
  "dom (OriginalTransforms (widget_step c s))
     \<subseteq> dom (OriginalTransforms s) \<union> {e. Some e \<in> bound_buttons s}"
  by (cases c) (simp_all add: handler_defs Let_def BindButtonHoverEffects_dom)

text \<open>Only elements the button pointers refer to ever get a snapshot: an element that
  is never bound stays unknown to the widget.\<close>

lemma widget_run_dom:
  "dom (OriginalTransforms (widget_run cs s))
     \<subseteq> dom (OriginalTransforms s) \<union> {e. Some e \<in> bound_buttons s}"
proof (induction cs arbitrary: s)
  case Nil
  show ?case by simp
next
  case (Cons c cs)
  have "dom (OriginalTransforms (widget_run cs (widget_step c s)))
          \<subseteq> dom (OriginalTransforms (widget_step c s)) \<union> {e. Some e \<in> bound_buttons s}"
    using Cons.IH[of "widget_step c s"] by simp
  also have "\<dots> \<subseteq> dom (OriginalTransforms s) \<union> {e. Some e \<in> bound_buttons s}"
    using widget_step_dom[of c s] by blast
  finally show ?case by simp
qed

lemma widget_step_keys:
  assumes "dom (OriginalTransforms s) = dom (OriginalColors s)"
  shows "dom (OriginalTransforms (widget_step c s)) = dom (OriginalColors (widget_step c s))"
  using assms by (cases c) (simp_all add: handler_defs Let_def BindButtonHoverEffects_dom)

subsection \<open>The hovered style\<close>

text \<open>What \<open>ApplyHoverEffect\<close> leaves on a button that has both snapshots: the stored
  transform with its scale replaced by the multiplier in both axes, and the stored colour
  times the tint.\<close>

lemma ApplyHoverEffect_registered:
  assumes "OriginalTransforms s e = Some t" and "OriginalColors s e = Some c"
  shows "RenderTransform (Buttons (ApplyHoverEffect (Some e) s) e)
           = t\<lparr>Scale := (HoverScaleMultiplier s, HoverScaleMultiplier s)\<rparr>"
    and "ColorAndOpacity (Buttons (ApplyHoverEffect (Some e) s) e) = color_times c (HoverColorTint s)"
  using assms by (simp_all add: ApplyHoverEffect_def Let_def)

lemma bound_menu_snapshots:
  "OriginalTransforms (bound_menu sc col) 0 = Some (identity_transform\<lparr>Scale := sc\<rparr>)"
  "OriginalColors (bound_menu sc col) 0 = Some col"
proof -
  have b: "Some 0 \<in> bound_buttons (default_menu sc col)"
    by (simp add: bound_buttons_def default_menu_def)
  show "OriginalTransforms (bound_menu sc col) 0 = Some (identity_transform\<lparr>Scale := sc\<rparr>)"
    using BindButtonHoverEffects_snapshot(1)[OF b]
    by (simp add: bound_menu_def) (simp add: default_menu_def plain_button_def)
  show "OriginalColors (bound_menu sc col) 0 = Some col"
    using BindButtonHoverEffects_snapshot(2)[OF b]
    by (simp add: bound_menu_def) (simp add: default_menu_def plain_button_def)
qed

lemma bound_menu_config:
  "HoverScaleMultiplier (bound_menu sc col) = 1.05"
  "HoverColorTint (bound_menu sc col) = FLinearColor 1.2 1.2 1.2 1.0"
  "PlayButton (bound_menu sc col) = Some 0"
  "RenderTransform (Buttons (bound_menu sc col) e) = identity_transform\<lparr>Scale := sc\<rparr>"
  "ColorAndOpacity (Buttons (bound_menu sc col) e) = col"
  by (simp_all add: bound_menu_def) (simp_all add: default_menu_def plain_button_def)

text \<open>
  C1 (the code departs from the claim). The claim: the hovered scale is the baseline
  scale times \<open>HoverScaleMultiplier\<close> in both axes. \<open>ApplyHoverEffect\<close> overwrites the
  scale of the stored transform with the bare multiplier. Evaluated on a play button
  whose baseline scale is \<open>(2, 2)\<close>, with the default multiplier 1.05: the snapshot holds
  \<open>(2, 2)\<close>, the hovered scale is \<open>(1.05, 1.05)\<close>, and that is not \<open>(2.1, 2.1)\<close>.
\<close>

theorem hover_scale_ignores_baseline:
  "OriginalTransforms (bound_menu (2, 2) grey) 0 = Some (identity_transform\<lparr>Scale := (2, 2)\<rparr>)
   \<and> HoverScaleMultiplier (bound_menu (2, 2) grey) = 1.05
   \<and> Scale (RenderTransform (Buttons (OnPlayButtonHovered (bound_menu (2, 2) grey)) 0)) = (1.05, 1.05)
   \<and> Scale (RenderTransform (Buttons (OnPlayButtonHovered (bound_menu (2, 2) grey)) 0))
       \<noteq> (2 * 1.05, 2 * 1.05)"
proof -
  have "RenderTransform (Buttons (OnPlayButtonHovered (bound_menu (2, 2) grey)) 0)
          = (identity_transform\<lparr>Scale := (2, 2)\<rparr>)\<lparr>Scale := (1.05, 1.05)\<rparr>"
    using ApplyHoverEffect_registered(1)[OF bound_menu_snapshots, of "(2, 2)" grey]
    by (simp add: OnPlayButtonHovered_def Let_def bound_menu_config)
  then show ?thesis
    by (simp add: bound_menu_snapshots bound_menu_config)
qed

lemma RemoveHoverEffect_registered:
  assumes "OriginalTransforms s e = Some t" and "OriginalColors s e = Some c"
  shows "RenderTransform (Buttons (RemoveHoverEffect (Some e) s) e) = t"
    and "ColorAndOpacity (Buttons (RemoveHoverEffect (Some e) s) e) = c"
  using assms by (simp_all add: RemoveHoverEffect_def Let_def)

text \<open>A further \<open>BindButtonHoverEffects\<close>, whatever calls were made on the widget since
  the first one, stores for every bound button the transform and colour the button has
  at the time of that call.\<close>

lemma rebind_stores_current_style:
  assumes "Some e \<in> bound_buttons s"
  shows "OriginalTransforms (BindButtonHoverEffects (widget_run cs (BindButtonHoverEffects s))) e
           = Some (RenderTransform (Buttons (widget_run cs (BindButtonHoverEffects s)) e))
       \<and> OriginalColors (BindButtonHoverEffects (widget_run cs (BindButtonHoverEffects s))) e
           = Some (ColorAndOpacity (Buttons (widget_run cs (BindButtonHoverEffects s)) e))"
proof -
  have "Some e \<in> bound_buttons (widget_run cs (BindButtonHoverEffects s))"
    using assms by simp
  then show ?thesis
    by (simp add: BindButtonHoverEffects_snapshot)
qed

text \<open>
  C2 (the code departs from the claim). The claim: a second registration of an element
  leaves the stored snapshot equal to the one the first registration captured, even if
  a hover effect was applied in between. \<open>BindButtonHoverEffects\<close> stores into the two
  maps unconditionally, and storing under a key that is present replaces the value.
  Evaluated on the play button (baseline: identity transform, grey), registered, hovered
  and registered again: the maps the header documents as holding the original transforms
  and colours then hold the hovered transform (scale 1.05) and the tinted colour, not
  the first snapshot; and the unhover handler, which restores from the maps, leaves the
  button with the hovered style.
\<close>

theorem rebind_after_hover_loses_baseline:
  "OriginalTransforms (bound_menu (1, 1) grey) 0 = Some (identity_transform\<lparr>Scale := (1, 1)\<rparr>)
   \<and> OriginalColors (bound_menu (1, 1) grey) 0 = Some (FLinearColor 0.5 0.5 0.5 1.0)
   \<and> OriginalTransforms (BindButtonHoverEffects (OnPlayButtonHovered (bound_menu (1, 1) grey))) 0
       = Some (identity_transform\<lparr>Scale := (1.05, 1.05)\<rparr>)
   \<and> OriginalColors (BindButtonHoverEffects (OnPlayButtonHovered (bound_menu (1, 1) grey))) 0
       = Some (FLinearColor 0.6 0.6 0.6 1.0)
   \<and> OriginalTransforms (BindButtonHoverEffects (OnPlayButtonHovered (bound_menu (1, 1) grey))) 0
       \<noteq> OriginalTransforms (bound_menu (1, 1) grey) 0
   \<and> OriginalColors (BindButtonHoverEffects (OnPlayButtonHovered (bound_menu (1, 1) grey))) 0
       \<noteq> OriginalColors (bound_menu (1, 1) grey) 0
   \<and> RenderTransform (Buttons (OnPlayButtonUnhovered
         (BindButtonHoverEffects (OnPlayButtonHovered (bound_menu (1, 1) grey)))) 0)
       = identity_transform\<lparr>Scale := (1.05, 1.05)\<rparr>
   \<and> ColorAndOpacity (Buttons (OnPlayButtonUnhovered
         (BindButtonHoverEffects (OnPlayButtonHovered (bound_menu (1, 1) grey)))) 0)
       = FLinearColor 0.6 0.6 0.6 1.0"
proof -
  let ?m = "bound_menu (1, 1) grey"
  let ?h = "OnPlayButtonHovered ?m"
  let ?r = "BindButtonHoverEffects ?h"
  have p: "PlayButton ?h = Some 0"
    by (simp add: OnPlayButtonHovered_def Let_def bound_menu_config)
  have b: "Some 0 \<in> bound_buttons ?h"
    by (simp add: bound_buttons_def p)
  have t: "RenderTransform (Buttons ?h 0) = identity_transform\<lparr>Scale := (1.05, 1.05)\<rparr>"
    using ApplyHoverEffect_registered(1)[OF bound_menu_snapshots, of "(1, 1)" grey]
    by (simp add: OnPlayButtonHovered_def Let_def bound_menu_config)
  have c: "ColorAndOpacity (Buttons ?h 0) = FLinearColor 0.6 0.6 0.6 1.0"
    using ApplyHoverEffect_registered(2)[OF bound_menu_snapshots, of "(1, 1)" grey]
    by (simp add: OnPlayButtonHovered_def Let_def bound_menu_config grey_def)
  have st: "OriginalTransforms ?r 0 = Some (identity_transform\<lparr>Scale := (1.05, 1.05)\<rparr>)"
    using BindButtonHoverEffects_snapshot(1)[OF b] t by simp
  have sc: "OriginalColors ?r 0 = Some (FLinearColor 0.6 0.6 0.6 1.0)"
    using BindButtonHoverEffects_snapshot(2)[OF b] c by simp
  have u: "OnPlayButtonUnhovered ?r = RemoveHoverEffect (Some 0) ?r"
    by (simp add: OnPlayButtonUnhovered_def p)
  have ut: "RenderTransform (Buttons (OnPlayButtonUnhovered ?r) 0)
              = identity_transform\<lparr>Scale := (1.05, 1.05)\<rparr>"
    unfolding u by (rule RemoveHoverEffect_registered(1)[OF st sc])
  have uc: "ColorAndOpacity (Buttons (OnPlayButtonUnhovered ?r) 0) = FLinearColor 0.6 0.6 0.6 1.0"
    unfolding u by (rule RemoveHoverEffect_registered(2)[OF st sc])
  show ?thesis
    using st sc ut uc
    by (simp add: bound_menu_snapshots grey_def identity_transform_def)
qed

text \<open>
  C3: an element that is registered (it is one of the widget's non-null button pointers
  when \<open>BindButtonHoverEffects\<close> runs), then hovered, then unhovered, ends with the
  transform and the colour it had at the moment of registration.
\<close>

theorem hover_round_trip:
  assumes "Some e \<in> bound_buttons s"
  shows "RenderTransform (Buttons (RemoveHoverEffect (Some e)
            (ApplyHoverEffect (Some e) (BindButtonHoverEffects s))) e)
           = RenderTransform (Buttons s e)
       \<and> ColorAndOpacity (Buttons (RemoveHoverEffect (Some e)
            (ApplyHoverEffect (Some e) (BindButtonHoverEffects s))) e)
           = ColorAndOpacity (Buttons s e)"
  using BindButtonHoverEffects_snapshot[OF assms]
  by (simp add: RemoveHoverEffect_def Let_def)

theorem hover_round_trip_witness:
  "Some 0 \<in> bound_buttons (default_menu (2, 2) grey)
   \<and> RenderTransform (Buttons (RemoveHoverEffect (Some 0)
        (ApplyHoverEffect (Some 0) (BindButtonHoverEffects (default_menu (2, 2) grey)))) 0)
       = identity_transform\<lparr>Scale := (2, 2)\<rparr>
   \<and> ColorAndOpacity (Buttons (RemoveHoverEffect (Some 0)
        (ApplyHoverEffect (Some 0) (BindButtonHoverEffects (default_menu (2, 2) grey)))) 0)
       = FLinearColor 0.5 0.5 0.5 1.0"
proof -
  have b: "Some 0 \<in> bound_buttons (default_menu (2, 2) grey)"
    by (simp add: bound_buttons_def default_menu_def)
  show ?thesis
    using b hover_round_trip[OF b]
    by (simp add: default_menu_def plain_button_def grey_def)
qed

text \<open>
  C6: for a null pointer, and for an element that has no stored snapshot (it was never
  registered), \<open>ApplyHoverEffect\<close> and \<open>RemoveHoverEffect\<close> change nothing at all, so in
  particular no transform and no colour.
\<close>

theorem hover_unknown_element_noop:
  assumes "unknown_element s Button"
  shows "ApplyHoverEffect Button s = s \<and> RemoveHoverEffect Button s = s"
  using assms
  by (auto simp add: unknown_element_def ApplyHoverEffect_def RemoveHoverEffect_def Let_def
      split: option.splits)

theorem hover_unknown_element_noop_witness:
  "unknown_element (bound_menu (1, 1) grey) (Some 5)
   \<and> unknown_element (bound_menu (1, 1) grey) None
   \<and> ApplyHoverEffect (Some 5) (bound_menu (1, 1) grey) = bound_menu (1, 1) grey
   \<and> RemoveHoverEffect (Some 5) (bound_menu (1, 1) grey) = bound_menu (1, 1) grey
   \<and> ApplyHoverEffect None (bound_menu (1, 1) grey) = bound_menu (1, 1) grey
   \<and> RemoveHoverEffect None (bound_menu (1, 1) grey) = bound_menu (1, 1) grey"
proof -
  have u5: "unknown_element (bound_menu (1, 1) grey) (Some 5)"
    by (simp add: unknown_element_def bound_menu_def BindButtonHoverEffects_dom)
       (simp add: bound_buttons_def default_menu_def)
  have un: "unknown_element (bound_menu (1, 1) grey) None"
    by (simp add: unknown_element_def)
  show ?thesis
    using u5 un hover_unknown_element_noop[OF u5] hover_unknown_element_noop[OF un]
    by simp
qed

text \<open>
  C7: on hover enter of a registered element the applied colour is the stored baseline
  colour with each of the four channels, alpha included, multiplied by the same channel
  of \<open>HoverColorTint\<close>; nothing is clamped.
\<close>

theorem hover_color_is_tinted:
  assumes "OriginalTransforms s e = Some t"
    and "OriginalColors s e = Some (FLinearColor r g b a)"
    and "HoverColorTint s = FLinearColor tr tg tb ta"
  shows "ColorAndOpacity (Buttons (ApplyHoverEffect (Some e) s) e)
           = FLinearColor (r * tr) (g * tg) (b * tb) (a * ta)"
  using ApplyHoverEffect_registered(2)[OF assms(1,2)] assms(3) by simp

text \<open>The specification's example: tint \<open>(1.2, 1.2, 1.2, 1.0)\<close> on baseline
  \<open>(0.5, 0.5, 0.5, 1.0)\<close> gives \<open>(0.6, 0.6, 0.6, 1.0)\<close>.\<close>

theorem hover_color_is_tinted_witness:
  "OriginalTransforms (bound_menu (1, 1) grey) 0 = Some (identity_transform\<lparr>Scale := (1, 1)\<rparr>)
   \<and> OriginalColors (bound_menu (1, 1) grey) 0 = Some (FLinearColor 0.5 0.5 0.5 1.0)
   \<and> HoverColorTint (bound_menu (1, 1) grey) = FLinearColor 1.2 1.2 1.2 1.0
   \<and> ColorAndOpacity (Buttons (ApplyHoverEffect (Some 0) (bound_menu (1, 1) grey)) 0)
       = FLinearColor 0.6 0.6 0.6 1.0"
proof -
  have h1: "OriginalTransforms (bound_menu (1, 1) grey) 0 = Some (identity_transform\<lparr>Scale := (1, 1)\<rparr>)"
    by (rule bound_menu_snapshots)
  have h2: "OriginalColors (bound_menu (1, 1) grey) 0 = Some (FLinearColor 0.5 0.5 0.5 1.0)"
    by (simp add: bound_menu_snapshots grey_def)
  have h3: "HoverColorTint (bound_menu (1, 1) grey) = FLinearColor 1.2 1.2 1.2 1.0"
    by (rule bound_menu_config)
  show ?thesis
    using h1 h2 h3 hover_color_is_tinted[OF h1 h2 h3] by simp
qed

text \<open>
  C8: each of the four hovered handlers plays the hover sound exactly when
  \<open>bPlaySoundOnHover\<close> is set and \<open>HoverSound\<close> is not null (one \<open>PlaySound2D\<close> call with
  that sound), and plays nothing otherwise; in both cases the buttons end as
  \<open>ApplyHoverEffect\<close> on the handler's button leaves them.
\<close>

theorem hover_sound_guarded:
  "Played (OnPlayButtonHovered s)
     = Played s @ (if bPlaySoundOnHover s \<and> HoverSound s \<noteq> None then [the (HoverSound s)] else [])
   \<and> Buttons (OnPlayButtonHovered s) = Buttons (ApplyHoverEffect (PlayButton s) s)
   \<and> Played (OnSettingsButtonHovered s)
     = Played s @ (if bPlaySoundOnHover s \<and> HoverSound s \<noteq> None then [the (HoverSound s)] else [])
   \<and> Buttons (OnSettingsButtonHovered s) = Buttons (ApplyHoverEffect (SettingsButton s) s)
   \<and> Played (OnContentButtonHovered s)
     = Played s @ (if bPlaySoundOnHover s \<and> HoverSound s \<noteq> None then [the (HoverSound s)] else [])
   \<and> Buttons (OnContentButtonHovered s) = Buttons (ApplyHoverEffect (ContentButton s) s)
   \<and> Played (OnQuitButtonHovered s)
     = Played s @ (if bPlaySoundOnHover s \<and> HoverSound s \<noteq> None then [the (HoverSound s)] else [])
   \<and> Buttons (OnQuitButtonHovered s) = Buttons (ApplyHoverEffect (QuitButton s) s)"
proof -
  have sound: "Played (hover_sound_step s)
      = Played s @ (if bPlaySoundOnHover s \<and> HoverSound s \<noteq> None then [the (HoverSound s)] else [])"
    by (auto simp add: hover_sound_step_def PlaySound2D_def split: option.splits)
  show ?thesis
    by (simp only: handler_defs Let_def ApplyHoverEffect_fields hover_sound_step_fields sound
          ApplyHoverEffect_after_sound)
qed

text \<open>
  C9: in every state a widget reaches from construction, by any sequence of calls
  (construction binding, re-binding, hover and unhover handlers, direct apply and
  remove), the transform map and the colour map have the same keys.
\<close>

theorem snapshot_maps_same_keys:
  assumes "freshly_constructed s"
  shows "dom (OriginalTransforms (widget_run cs s)) = dom (OriginalColors (widget_run cs s))"
proof -
  have "dom (OriginalTransforms t) = dom (OriginalColors t) \<Longrightarrow>
        dom (OriginalTransforms (widget_run cs t)) = dom (OriginalColors (widget_run cs t))" for t
    by (induction cs arbitrary: t) (simp_all add: widget_step_keys)
  moreover from assms have "dom (OriginalTransforms s) = dom (OriginalColors s)"
    by (simp add: freshly_constructed_def)
  ultimately show ?thesis .
qed

theorem snapshot_maps_same_keys_witness:
  "freshly_constructed (default_menu (1, 1) grey)
   \<and> dom (OriginalTransforms (widget_run [CallNativeConstruct, CallOnPlayButtonHovered,
            CallOnPlayButtonUnhovered] (default_menu (1, 1) grey)))
       = dom (OriginalColors (widget_run [CallNativeConstruct, CallOnPlayButtonHovered,
            CallOnPlayButtonUnhovered] (default_menu (1, 1) grey)))"
proof -
  have f: "freshly_constructed (default_menu (1, 1) grey)"
    by (simp add: freshly_constructed_def default_menu_def)
  show ?thesis
    using f snapshot_maps_same_keys[OF f] by blast
qed

text \<open>
  C10: applying the hover effect twice in a row leaves the same state as applying it
  once (for every pointer, so in particular for every registered element): the hovered
  style is computed from the stored snapshot, which the effect does not touch.
\<close>

theorem ApplyHoverEffect_idempotent:
  "ApplyHoverEffect b (ApplyHoverEffect b s) = ApplyHoverEffect b s"
  by (simp add: ApplyHoverEffect_def Let_def SetRenderTransform_def SetColorAndOpacity_def
      split: option.splits)

section \<open>Properties of the startup flow\<close>

lemma ShowMainMenu_total: "\<exists>s'. ShowMainMenu s = Some s'"
  by (auto simp: ShowMainMenu_def RemoveFromParent_def AddToViewport_def CreateWidget_def Let_def
      set_ui_only_input_def TakeWidget_def split: option.splits)

lemma ShowMainMenu_timer:
  "ShowMainMenu s = Some s' \<Longrightarrow> LoadingTimerHandle s' = LoadingTimerHandle s"
  by (auto simp: ShowMainMenu_def RemoveFromParent_def AddToViewport_def CreateWidget_def Let_def
      set_ui_only_input_def TakeWidget_def split: option.splits if_splits Option.bind_splits)

lemma run_ticks_no_timer:
  "LoadingTimerHandle s = None \<Longrightarrow> run_ticks ds s = Some (0, s)"
  by (induction ds arbitrary: s) (simp_all add: Tick_def)

text \<open>A pending timer that does not repeat is called once, at the first step by which
  its remaining time has elapsed, and never again.\<close>

lemma run_ticks_single_shot:
  assumes "LoadingTimerHandle s = Some t" "\<not> bLoop t" "\<forall>d\<in>set ds. 0 \<le> d"
  shows "\<exists>s'. run_ticks ds s = Some ((if ds \<noteq> [] \<and> Remaining t \<le> sum_list ds then 1 else 0), s')"
  using assms
proof (induction ds arbitrary: s t)
  case Nil
  then show ?case by simp
next
  case (Cons d ds)
  show ?case
  proof (cases "d < Remaining t")
    case True
    let ?t = "t\<lparr>Remaining := Remaining t - d\<rparr>"
    let ?s = "s\<lparr>LoadingTimerHandle := Some ?t\<rparr>"
    have tick: "Tick d s = Some (0, ?s)" using Cons.prems True by (simp add: Tick_def)
    have "\<exists>s'. run_ticks ds ?s = Some ((if ds \<noteq> [] \<and> Remaining ?t \<le> sum_list ds then 1 else 0), s')"
      using Cons.prems by (intro Cons.IH) auto
    moreover have "(ds \<noteq> [] \<and> Remaining ?t \<le> sum_list ds) \<longleftrightarrow> Remaining t \<le> sum_list (d # ds)"
      using True by (cases ds) auto
    ultimately show ?thesis using tick by auto
  next
    case False
    obtain s1 where s1: "ShowMainMenu (s\<lparr>LoadingTimerHandle := None\<rparr>) = Some s1"
      using ShowMainMenu_total by blast
    have "TimerFunc t = TimerShowMainMenu" by (cases "TimerFunc t") simp
    then have tick: "Tick d s = Some (1, s1)"
      using Cons.prems False s1 by (simp add: Tick_def)
    have "LoadingTimerHandle s1 = None" using ShowMainMenu_timer[OF s1] by simp
    then have rest: "run_ticks ds s1 = Some (0, s1)" by (rule run_ticks_no_timer)
    have "0 \<le> sum_list ds" using Cons.prems(3) by (simp add: sum_list_nonneg)
    then have "Remaining t \<le> sum_list (d # ds)" using False by simp
    then show ?thesis using tick rest by simp
  qed
qed

text \<open>What \<open>Init\<close> leaves on the timer handle, in each of its three branches.\<close>

lemma Init_no_class:
  assumes "LoadingScreenWidgetClass s = None"
  shows "Init s = Some s"
  using assms by (simp add: Init_def)

lemma Init_creation_fails:
  assumes "LoadingScreenWidgetClass s = Some c" and "\<not> Instantiable s c"
  shows "Init s = Some (s\<lparr>CurrentWidget := None\<rparr>)"
  using assms by (simp add: Init_def CreateWidget_def Let_def)

lemma Init_created:
  assumes "LoadingScreenWidgetClass s = Some c" and "Instantiable s c"
  shows "\<exists>s1. Init s = Some s1
           \<and> LoadingTimerHandle s1 = Some \<lparr>TimerFunc = TimerShowMainMenu, Rate = LoadingScreenDuration s,
                                            bLoop = False, Remaining = LoadingScreenDuration s\<rparr>"
  using assms
  by (cases "PlayerController s")
     (simp_all add: Init_def CreateWidget_def AddToViewport_def set_ui_only_input_def TakeWidget_def
        SetTimer_def Let_def)

text \<open>The model run on concrete instances (loading class 1, menu class 2, duration 2):
  before the delay has elapsed the loading screen is the view and no call was made; once
  it has elapsed the main menu is the view, one call was made and no timer is pending.\<close>

lemma startup_flow_before_delay:
  "map_option (\<lambda>(n, s). (n, controller_view s, map_option Remaining (LoadingTimerHandle s)))
     (Init (game_instance (Some 1) (Some 2)) \<bind> run_ticks [1, 1 / 2])
   = Some (0, (Some 1, [Some 1], Some False), Some (1 / 2))"
  by (simp add: game_instance_def Init_def CreateWidget_def AddToViewport_def
      set_ui_only_input_def TakeWidget_def SetTimer_def Tick_def controller_view_def Let_def)

lemma startup_flow_after_delay:
  "map_option (\<lambda>(n, s). (n, controller_view s, map_option Remaining (LoadingTimerHandle s)))
     (Init (game_instance (Some 1) (Some 2)) \<bind> run_ticks [1, 1 / 2, 1 / 2, 3])
   = Some (1, (Some 2, [Some 2], Some True), None)"
  by (simp add: game_instance_def Init_def ShowMainMenu_def CreateWidget_def AddToViewport_def
      RemoveFromParent_def set_ui_only_input_def TakeWidget_def SetTimer_def Tick_def
      controller_view_def Let_def)

lemma startup_flow_creation_fails:
  "map_option (\<lambda>(n, s). (n, controller_view s, map_option Remaining (LoadingTimerHandle s)))
     (Init (game_instance_no_create (Some 1) (Some 2)) \<bind> run_ticks [1, 1, 1])
   = Some (0, (None, [], Some True), None)"
  by (simp add: game_instance_no_create_def game_instance_def Init_def CreateWidget_def
      Tick_def controller_view_def Let_def)

text \<open>
  C4 as stated fails: a game instance with no loading screen class. \<open>Init\<close> returns the
  instance as it was, with no timer on the handle, and three seconds of event-loop
  steps call \<open>ShowMainMenu\<close> zero times.
\<close>

theorem Init_without_loading_class_counterexample:
  "Init (game_instance None (Some 2)) = Some (game_instance None (Some 2))
   \<and> LoadingTimerHandle (game_instance None (Some 2)) = None
   \<and> run_ticks [1, 1, 1] (game_instance None (Some 2)) = Some (0, game_instance None (Some 2))"
  by (simp add: Init_def Tick_def game_instance_def)

text \<open>
  C4, amended: for a run started via \<open>Init\<close> (no timer on the handle yet) in which a
  loading screen class is set and its widget is created, the transition is scheduled as
  a single-shot event (one timer for \<open>ShowMainMenu\<close>, rate \<open>LoadingScreenDuration\<close>, not
  repeating) and fires exactly once, after \<open>LoadingScreenDuration\<close> has elapsed: over any
  run of the event loop \<open>ShowMainMenu\<close> has been called once if a step has been made by
  which that time has elapsed, and not at all before. In a run in which no loading
  screen class is set or the widget is not created, \<open>Init\<close> schedules nothing and the
  transition never fires.
\<close>

theorem Init_schedules_single_shot:
  assumes "LoadingTimerHandle s = None" and "\<forall>d\<in>set ds. 0 \<le> d"
  shows "\<exists>s1 n s2. Init s = Some s1 \<and> run_ticks ds s1 = Some (n, s2)
           \<and> LoadingTimerHandle s1
               = (if loading_widget_created s
                  then Some \<lparr>TimerFunc = TimerShowMainMenu, Rate = LoadingScreenDuration s,
                             bLoop = False, Remaining = LoadingScreenDuration s\<rparr>
                  else None)
           \<and> n = (if loading_widget_created s \<and> ds \<noteq> [] \<and> LoadingScreenDuration s \<le> sum_list ds
                  then 1 else 0)"
proof (cases "loading_widget_created s")
  case True
  then obtain c where c: "LoadingScreenWidgetClass s = Some c" "Instantiable s c"
    by (auto simp add: loading_widget_created_def split: option.splits)
  let ?t = "\<lparr>TimerFunc = TimerShowMainMenu, Rate = LoadingScreenDuration s,
             bLoop = False, Remaining = LoadingScreenDuration s\<rparr>"
  from Init_created[OF c] obtain s1 where
    s1: "Init s = Some s1" and t: "LoadingTimerHandle s1 = Some ?t"
    by blast
  from run_ticks_single_shot[OF t, of ds] assms(2)
  obtain s2 where "run_ticks ds s1
      = Some ((if ds \<noteq> [] \<and> LoadingScreenDuration s \<le> sum_list ds then 1 else 0), s2)"
    by auto
  with s1 t True show ?thesis by simp
next
  case False
  have "\<exists>s1. Init s = Some s1 \<and> LoadingTimerHandle s1 = None"
  proof (cases "LoadingScreenWidgetClass s")
    case None
    with assms(1) show ?thesis by (simp add: Init_no_class)
  next
    case (Some c)
    with False have "\<not> Instantiable s c" by (simp add: loading_widget_created_def)
    with Some assms(1) show ?thesis by (simp add: Init_creation_fails)
  qed
  then obtain s1 where s1: "Init s = Some s1" and t: "LoadingTimerHandle s1 = None"
    by blast
  from run_ticks_no_timer[OF t] have "run_ticks ds s1 = Some (0, s1)" .
  with s1 t False show ?thesis by simp
qed

theorem Init_schedules_single_shot_witness:
  "LoadingTimerHandle (game_instance (Some 1) (Some 2)) = None
   \<and> LoadingTimerHandle (game_instance_no_create (Some 1) (Some 2)) = None
   \<and> loading_widget_created (game_instance (Some 1) (Some 2))
   \<and> \<not> loading_widget_created (game_instance_no_create (Some 1) (Some 2))
   \<and> (\<exists>s1 s2. Init (game_instance (Some 1) (Some 2)) = Some s1
         \<and> LoadingTimerHandle s1
             = Some \<lparr>TimerFunc = TimerShowMainMenu, Rate = 2, bLoop = False, Remaining = 2\<rparr>
         \<and> run_ticks [1, 1 / 2, 1] s1 = Some (1, s2))
   \<and> (\<exists>s1 s2. Init (game_instance (Some 1) (Some 2)) = Some s1
         \<and> run_ticks [1, 1 / 2] s1 = Some (0, s2))
   \<and> (\<exists>s1 s2. Init (game_instance_no_create (Some 1) (Some 2)) = Some s1
         \<and> LoadingTimerHandle s1 = None
         \<and> run_ticks [1, 1 / 2, 1] s1 = Some (0, s2))"
proof -
  have h1: "LoadingTimerHandle (game_instance l m) = None" for l m
    by (simp add: game_instance_def)
  have h2: "LoadingTimerHandle (game_instance_no_create l m) = None" for l m
    by (simp add: game_instance_no_create_def game_instance_def)
  have c1: "loading_widget_created (game_instance (Some l) m)" for l m
    by (simp add: loading_widget_created_def game_instance_def)
  have c2: "\<not> loading_widget_created (game_instance_no_create (Some l) m)" for l m
    by (simp add: loading_widget_created_def game_instance_no_create_def game_instance_def)
  have d: "LoadingScreenDuration (game_instance l m) = 2" for l m
    by (simp add: game_instance_def)
  have t3: "\<forall>d\<in>set [1, 1 / 2, 1 :: real]. 0 \<le> d" by simp
  have t2: "\<forall>d\<in>set [1, 1 / 2 :: real]. 0 \<le> d" by simp
  have a: "\<exists>s1 s2. Init (game_instance (Some 1) (Some 2)) = Some s1
         \<and> LoadingTimerHandle s1
             = Some \<lparr>TimerFunc = TimerShowMainMenu, Rate = 2, bLoop = False, Remaining = 2\<rparr>
         \<and> run_ticks [1, 1 / 2, 1] s1 = Some (1, s2)"
    using Init_schedules_single_shot[OF h1 t3, of "Some 1" "Some 2"]
    by (auto simp add: c1 d simp del: run_ticks.simps)
  have b: "\<exists>s1 s2. Init (game_instance (Some 1) (Some 2)) = Some s1
         \<and> run_ticks [1, 1 / 2] s1 = Some (0, s2)"
    using Init_schedules_single_shot[OF h1 t2, of "Some 1" "Some 2"]
    by (auto simp add: c1 d simp del: run_ticks.simps)
  have c: "\<exists>s1 s2. Init (game_instance_no_create (Some 1) (Some 2)) = Some s1
         \<and> LoadingTimerHandle s1 = None
         \<and> run_ticks [1, 1 / 2, 1] s1 = Some (0, s2)"
    using Init_schedules_single_shot[OF h2 t3, of "Some 1" "Some 2"]
    by (auto simp add: c2 simp del: run_ticks.simps)
  from a b c h1 h2 c1 c2 show ?thesis by blast
qed

lemma removeAll_sole: "set xs \<subseteq> {w} \<Longrightarrow> removeAll w xs = []"
  by (induction xs) auto

lemma ShowMainMenu_sole_created:
  assumes "sole_view s" and "MainMenuWidgetClass s = Some c" and "Instantiable s c"
  shows "\<exists>s'. ShowMainMenu s = Some s'
           \<and> CurrentWidget s' = Some (NextObject s) \<and> Viewport s' = [NextObject s]
           \<and> ClassOf s' = (ClassOf s)(NextObject s \<mapsto> c)
           \<and> MainMenuWidgetClass s' = Some c \<and> Instantiable s' = Instantiable s
           \<and> map_option bShowMouseCursor (PlayerController s') = map_option (\<lambda>_. True) (PlayerController s)"
proof (cases "CurrentWidget s")
  case None
  with assms(1) have "Viewport s = []" by (simp add: sole_view_def)
  with None assms(2,3) show ?thesis
    by (cases "PlayerController s")
       (simp_all add: ShowMainMenu_def CreateWidget_def AddToViewport_def set_ui_only_input_def
          TakeWidget_def Let_def)
next
  case (Some w)
  with assms(1) have "removeAll w (Viewport s) = []" by (simp add: sole_view_def removeAll_sole)
  with Some assms(2,3) show ?thesis
    by (cases "PlayerController s")
       (simp_all add: ShowMainMenu_def RemoveFromParent_def CreateWidget_def AddToViewport_def
          set_ui_only_input_def TakeWidget_def Let_def)
qed

lemma ShowMainMenu_sole_absent:
  assumes "sole_view s" and "\<forall>c. MainMenuWidgetClass s = Some c \<longrightarrow> \<not> Instantiable s c"
  shows "ShowMainMenu s = Some (s\<lparr>CurrentWidget := None, Viewport := []\<rparr>)"
proof (cases "CurrentWidget s")
  case None
  with assms(1) have "Viewport s = []" by (simp add: sole_view_def)
  with None assms(2) show ?thesis
    by (cases "MainMenuWidgetClass s") (simp_all add: ShowMainMenu_def CreateWidget_def Let_def)
next
  case (Some w)
  with assms(1) have "removeAll w (Viewport s) = []" by (simp add: sole_view_def removeAll_sole)
  with Some assms(2) show ?thesis
    by (cases "MainMenuWidgetClass s")
       (simp_all add: ShowMainMenu_def RemoveFromParent_def CreateWidget_def Let_def)
qed

text \<open>
  C5: starting where at most the controller's own view is displayed, \<open>ShowMainMenu\<close>
  returns both the first and the second time (no null pointer is dereferenced, whether
  or not the current widget is null at the second call); the second call leaves what
  the flow shows unchanged (class of the current view, classes displayed, cursor flag),
  and when a main menu class is set and can be instantiated, a widget of that class is
  the current widget and the only widget in the viewport afterwards. The second call
  does replace the menu widget object by a new one of the same class.
\<close>

theorem ShowMainMenu_second_call:
  assumes "sole_view s"
  shows "\<exists>s1 s2. ShowMainMenu s = Some s1 \<and> ShowMainMenu s1 = Some s2
           \<and> controller_view s2 = controller_view s1 \<and> sole_view s2
           \<and> (\<forall>c. MainMenuWidgetClass s = Some c \<and> Instantiable s c \<longrightarrow>
                 (\<exists>w. CurrentWidget s2 = Some w \<and> Viewport s2 = [w] \<and> ClassOf s2 w = Some c))"
proof (cases "\<exists>c. MainMenuWidgetClass s = Some c \<and> Instantiable s c")
  case True
  then obtain c where c: "MainMenuWidgetClass s = Some c" "Instantiable s c" by blast
  from ShowMainMenu_sole_created[OF assms c] obtain s1 where
    s1: "ShowMainMenu s = Some s1" "CurrentWidget s1 = Some (NextObject s)"
      "Viewport s1 = [NextObject s]" "ClassOf s1 = (ClassOf s)(NextObject s \<mapsto> c)"
      "MainMenuWidgetClass s1 = Some c" "Instantiable s1 = Instantiable s"
      "map_option bShowMouseCursor (PlayerController s1) = map_option (\<lambda>_. True) (PlayerController s)"
    by blast
  have sole1: "sole_view s1" using s1(2,3) by (simp add: sole_view_def)
  have inst1: "Instantiable s1 c" using s1(6) c(2) by simp
  from ShowMainMenu_sole_created[OF sole1 s1(5) inst1] obtain s2 where
    s2: "ShowMainMenu s1 = Some s2" "CurrentWidget s2 = Some (NextObject s1)"
      "Viewport s2 = [NextObject s1]" "ClassOf s2 = (ClassOf s1)(NextObject s1 \<mapsto> c)"
      "map_option bShowMouseCursor (PlayerController s2) = map_option (\<lambda>_. True) (PlayerController s1)"
    by blast
  have cur: "map_option bShowMouseCursor (PlayerController s2)
               = map_option bShowMouseCursor (PlayerController s1)"
    using s2(5) s1(7) by (cases "PlayerController s"; cases "PlayerController s1") simp_all
  have view: "controller_view s2 = controller_view s1"
    using s1(2,3,4) s2(2,3,4) cur by (simp add: controller_view_def)
  have sole2: "sole_view s2" using s2(2,3) by (simp add: sole_view_def)
  have "CurrentWidget s2 = Some (NextObject s1) \<and> Viewport s2 = [NextObject s1]
          \<and> ClassOf s2 (NextObject s1) = Some c"
    using s2(2,3,4) by simp
  with s1(1) s2(1) view sole2 c(1) show ?thesis by auto
next
  case False
  then have absent: "\<forall>c. MainMenuWidgetClass s = Some c \<longrightarrow> \<not> Instantiable s c" by blast
  let ?s1 = "s\<lparr>CurrentWidget := None, Viewport := []\<rparr>"
  have s1: "ShowMainMenu s = Some ?s1" by (rule ShowMainMenu_sole_absent[OF assms absent])
  have sole1: "sole_view ?s1" by (simp add: sole_view_def)
  have absent1: "\<forall>c. MainMenuWidgetClass ?s1 = Some c \<longrightarrow> \<not> Instantiable ?s1 c"
    using absent by simp
  have s2: "ShowMainMenu ?s1 = Some ?s1"
    using ShowMainMenu_sole_absent[OF sole1 absent1] by simp
  show ?thesis using s1 s2 sole1 False by auto
qed

theorem ShowMainMenu_second_call_witness:
  "sole_view (game_instance (Some 1) (Some 2))
   \<and> MainMenuWidgetClass (game_instance (Some 1) (Some 2)) = Some 2
   \<and> Instantiable (game_instance (Some 1) (Some 2)) 2
   \<and> (\<exists>s1 s2 w. ShowMainMenu (game_instance (Some 1) (Some 2)) = Some s1
         \<and> ShowMainMenu s1 = Some s2
         \<and> controller_view s2 = controller_view s1
         \<and> CurrentWidget s2 = Some w \<and> Viewport s2 = [w] \<and> ClassOf s2 w = Some 2)"
proof -
  have h: "sole_view (game_instance (Some 1) (Some 2))"
    by (simp add: sole_view_def game_instance_def)
  have c: "MainMenuWidgetClass (game_instance (Some 1) (Some 2)) = Some 2"
    by (simp add: game_instance_def)
  have i: "Instantiable (game_instance (Some 1) (Some 2)) 2"
    by (simp add: game_instance_def)
  show ?thesis
    using h c i ShowMainMenu_second_call[OF h] by blast
qed

end
